theory Spec2Isabelle
  imports Main
begin

section \<open>Data model\<close>

text \<open>
  The rows and columns that \<^verbatim>\<open>app.py\<close> reads and writes. The model classes themselves
  live in \<^verbatim>\<open>database/models.py\<close>; only the columns used by the routes below are kept.
  Python integers are unbounded, hence \<open>int\<close>. Tables looked up by primary key
  (\<^verbatim>\<open>Event.query.get\<close>, \<^verbatim>\<open>TimeSlot.query.get\<close>) are maps from the key; tables that
  are filtered (\<^verbatim>\<open>filter_by(...).first()\<close>) are lists in storage order.
\<close>

record user =
  user_id :: int
  role :: string

record volunteer =
  vol_id :: int
  vol_user_id :: int

record ngo =
  ngo_id :: int
  ngo_user_id :: int

record event =
  ev_ngo_id :: int
  is_active :: bool

record time_slot =
  ts_event_id :: int
  max_volunteers :: int
  current_volunteers :: int
  is_available :: bool

record booking =
  volunteer_id :: int
  time_slot_id :: int
  event_id :: int
  status :: string

record db =
  volunteers :: "volunteer list"
  ngos :: "ngo list"
  events :: "int \<rightharpoonup> event"
  time_slots :: "int \<rightharpoonup> time_slot"
  bookings :: "booking list"

text \<open>The JSON body of \<^verbatim>\<open>POST /api/book-slot\<close>: \<^verbatim>\<open>data.get(key)\<close> is \<open>None\<close> for a missing key.\<close>

record book_request =
  req_slot_id :: "int option"
  req_event_id :: "int option"

text \<open>
  \<^verbatim>\<open>jsonify({'error': msg}), code\<close> and \<^verbatim>\<open>jsonify({'message': msg})\<close> (status 200).
\<close>

datatype response = JsonError string nat | JsonMessage string

text \<open>
  The storage calls of \<^verbatim>\<open>book_slot\<close>'s \<^verbatim>\<open>try\<close> block, in program order. A fault names
  the call at which the storage layer raises and the text of the exception; the
  \<^verbatim>\<open>except Exception\<close> handler then rolls back and answers 500.
\<close>

datatype storage_call = VolunteerQuery | BookingQuery | SlotLock | Commit

type_synonym fault = "(storage_call \<times> string) option"

definition raises_at :: "fault \<Rightarrow> storage_call \<Rightarrow> string option" where
  "raises_at f c = (case f of None \<Rightarrow> None | Some (c', e) \<Rightarrow> if c' = c then Some e else None)"

section \<open>The booking route\<close>

text \<open>Python truthiness of \<^verbatim>\<open>data.get(key)\<close>: \<^verbatim>\<open>None\<close> and \<^verbatim>\<open>0\<close> are falsy.\<close>

fun falsy :: "int option \<Rightarrow> bool" where
  "falsy None = True"
| "falsy (Some n) = (n = 0)"

text \<open>
  \<^verbatim>\<open>except Exception as e: db.session.rollback(); return jsonify({'error': f'Booking failed: {str(e)}'}), 500\<close>.
  The rollback discards every pending write, so wherever this response is returned the
  stored state is the one the request found.
\<close>

definition booking_failed :: "string \<Rightarrow> response" where
  "booking_failed e = JsonError (''Booking failed: '' @ e) 500"

text \<open>\<^verbatim>\<open>Booking.query.filter_by(volunteer_id=volunteer.id, time_slot_id=slot_id).first()\<close>\<close>

definition existing_booking :: "db \<Rightarrow> int \<Rightarrow> int \<Rightarrow> booking option" where
  "existing_booking d vid sid =
     find (\<lambda>b. volunteer_id b = vid \<and> time_slot_id b = sid) (bookings d)"

text \<open>
  Lines 627-649 of \<^verbatim>\<open>book_slot\<close>: everything before the transaction. Only reads. The
  result is either the early response, or the volunteer id, slot id and event id with
  which the transaction is entered.
\<close>

definition precheck :: "fault \<Rightarrow> db \<Rightarrow> user \<Rightarrow> book_request \<Rightarrow> response + int \<times> int \<times> int" where
  "precheck f d current_user data =
     (if role current_user \<noteq> ''volunteer''
      then Inl (JsonError ''Only volunteers can book slots'' 403)
      else
        (case (req_slot_id data, req_event_id data) of
           (Some sid, Some eid) \<Rightarrow>
             if falsy (Some sid) \<or> falsy (Some eid)
             then Inl (JsonError ''Missing slot_id or event_id'' 400)
             else
               (case raises_at f VolunteerQuery of
                  Some e \<Rightarrow> Inl (booking_failed e)
                | None \<Rightarrow>
                    (case find (\<lambda>v. vol_user_id v = user_id current_user) (volunteers d) of
                       None \<Rightarrow> Inl (JsonError ''Volunteer profile not found'' 400)
                     | Some volunteer \<Rightarrow>
                         (case raises_at f BookingQuery of
                            Some e \<Rightarrow> Inl (booking_failed e)
                          | None \<Rightarrow>
                              (case existing_booking d (vol_id volunteer) sid of
                                 Some b \<Rightarrow> Inl (JsonError ''You have already booked this slot'' 400)
                               | None \<Rightarrow> Inr (vol_id volunteer, sid, eid)))))
         | _ \<Rightarrow> Inl (JsonError ''Missing slot_id or event_id'' 400)))"

text \<open>
  Lines 654-673: the body of \<^verbatim>\<open>with db.session.begin():\<close>, run on the slot row that
  \<^verbatim>\<open>TimeSlot.query.with_for_update().get(slot_id)\<close> returns. The result is the response
  and the state that the block leaves to be committed.
\<close>

definition reserve :: "db \<Rightarrow> int \<Rightarrow> int \<Rightarrow> int \<Rightarrow> response \<times> db" where
  "reserve d vid sid eid =
     (case time_slots d sid of
        None \<Rightarrow> (JsonError ''Slot not available'' 400, d)
      | Some slot \<Rightarrow>
          if \<not> is_available slot then (JsonError ''Slot not available'' 400, d)
          else if current_volunteers slot \<ge> max_volunteers slot
          then (JsonError ''Slot is full'' 400, d)
          else
            let booking = \<lparr>volunteer_id = vid, time_slot_id = sid, event_id = eid,
                           status = ''confirmed''\<rparr>;
                slot1 = slot\<lparr>current_volunteers := current_volunteers slot + 1\<rparr>;
                slot2 = (if current_volunteers slot1 \<ge> max_volunteers slot1
                         then slot1\<lparr>is_available := False\<rparr> else slot1)
            in (JsonMessage ''Slot booked successfully'',
                d\<lparr>time_slots := (time_slots d)(sid \<mapsto> slot2),
                  bookings := bookings d @ [booking]\<rparr>))"

text \<open>
  \<^verbatim>\<open>db.session.begin()\<close> (line 652). The session begins its transaction by itself at
  the first query it runs. \<^verbatim>\<open>Session.begin()\<close> on a session whose transaction has
  already begun raises \<^verbatim>\<open>InvalidRequestError\<close>; the text is the one of SQLAlchemy 1.4
  and 2.0. \<open>session_begin\<close> gives the exception's text, or \<open>None\<close> when the call opens
  the transaction.
\<close>

definition begin_error :: string where
  "begin_error = ''A transaction is already begun on this Session.''"

definition session_begin :: "bool \<Rightarrow> string option" where
  "session_begin in_transaction = (if in_transaction then Some begin_error else None)"

text \<open>
  Lines 651-680: the transaction, entered with the session in the state
  \<open>in_transaction\<close>. \<^verbatim>\<open>begin()\<close> may raise; inside the block the locked read may raise,
  and so may the commit that leaving the \<^verbatim>\<open>with\<close> block performs (also after an early
  \<^verbatim>\<open>return\<close> from inside the block). In every case the handler of lines 678-680 rolls
  back and answers 500.
\<close>

definition book_transaction ::
  "fault \<Rightarrow> bool \<Rightarrow> db \<Rightarrow> int \<Rightarrow> int \<Rightarrow> int \<Rightarrow> response \<times> db" where
  "book_transaction f in_transaction d vid sid eid =
     (case session_begin in_transaction of
        Some e \<Rightarrow> (booking_failed e, d)
      | None \<Rightarrow>
          (case raises_at f SlotLock of
             Some e \<Rightarrow> (booking_failed e, d)
           | None \<Rightarrow>
               (case raises_at f Commit of
                  Some e \<Rightarrow> (booking_failed e, d)
                | None \<Rightarrow> reserve d vid sid eid)))"

text \<open>
  \<^verbatim>\<open>book_slot\<close> (app.py, lines 624-680), for the logged-in \<^verbatim>\<open>current_user\<close>. When the
  checks are passed, the lookups of lines 638 and 643 have run on \<^verbatim>\<open>db.session\<close>, so
  the transaction block is entered with the session's transaction already begun.
\<close>

definition book_slot :: "fault \<Rightarrow> db \<Rightarrow> user \<Rightarrow> book_request \<Rightarrow> response \<times> db" where
  "book_slot f d current_user data =
     (case precheck f d current_user data of
        Inl r \<Rightarrow> (r, d)
      | Inr (vid, sid, eid) \<Rightarrow> book_transaction f True d vid sid eid)"

section \<open>Event management routes\<close>

text \<open>
  What the NGO routes return: \<^verbatim>\<open>flash(message, category)\<close> followed by
  \<^verbatim>\<open>redirect(url_for(endpoint))\<close>, or the 404 of \<^verbatim>\<open>get_or_404\<close>.
\<close>

datatype page = Redirect string string string | Abort nat

text \<open>
  \<^verbatim>\<open>ngo_delete_event\<close> (lines 538-569). \<open>exc\<close> is the text of an exception raised inside
  the \<^verbatim>\<open>try\<close> block, if any; the handler rolls back. The two bulk deletes filter on the
  \<open>event_id\<close> column of each table.
\<close>

definition ngo_delete_event :: "string option \<Rightarrow> db \<Rightarrow> user \<Rightarrow> int \<Rightarrow> page \<times> db" where
  "ngo_delete_event exc d current_user eid =
     (if role current_user \<noteq> ''ngo''
      then (Redirect ''dashboard'' ''Access denied. NGO access required.'' ''error'', d)
      else
        (case find (\<lambda>n. ngo_user_id n = user_id current_user) (ngos d) of
           None \<Rightarrow> (Redirect ''dashboard'' ''NGO profile not found.'' ''error'', d)
         | Some ngo \<Rightarrow>
             (case events d eid of
                None \<Rightarrow> (Abort 404, d)
              | Some event \<Rightarrow>
                  if ev_ngo_id event \<noteq> ngo_id ngo
                  then (Redirect ''ngo_events''
                          ''Access denied. You can only delete your own events.'' ''error'', d)
                  else
                    (case exc of
                       Some e \<Rightarrow>
                         (Redirect ''ngo_events'' (''Error deleting event: '' @ e) ''error'', d)
                     | None \<Rightarrow>
                         (Redirect ''ngo_events'' ''Event deleted successfully!'' ''success'',
                          d\<lparr>bookings := filter (\<lambda>b. event_id b \<noteq> eid) (bookings d),
                            time_slots :=
                              (\<lambda>k. case time_slots d k of
                                     None \<Rightarrow> None
                                   | Some s \<Rightarrow> if ts_event_id s = eid then None else Some s),
                            events := (events d)(eid := None)\<rparr>)))))"

text \<open>\<^verbatim>\<open>ngo_toggle_event_status\<close> (lines 571-598): flips \<open>is_active\<close> of the event row only.\<close>

definition ngo_toggle_event_status :: "string option \<Rightarrow> db \<Rightarrow> user \<Rightarrow> int \<Rightarrow> page \<times> db" where
  "ngo_toggle_event_status exc d current_user eid =
     (if role current_user \<noteq> ''ngo''
      then (Redirect ''dashboard'' ''Access denied. NGO access required.'' ''error'', d)
      else
        (case find (\<lambda>n. ngo_user_id n = user_id current_user) (ngos d) of
           None \<Rightarrow> (Redirect ''dashboard'' ''NGO profile not found.'' ''error'', d)
         | Some ngo \<Rightarrow>
             (case events d eid of
                None \<Rightarrow> (Abort 404, d)
              | Some event \<Rightarrow>
                  if ev_ngo_id event \<noteq> ngo_id ngo
                  then (Redirect ''ngo_events''
                          ''Access denied. You can only modify your own events.'' ''error'', d)
                  else
                    (case exc of
                       Some e \<Rightarrow>
                         (Redirect ''ngo_view_event''
                            (''Error updating event status: '' @ e) ''error'', d)
                     | None \<Rightarrow>
                         (let event' = event\<lparr>is_active := \<not> is_active event\<rparr>;
                              status = (if is_active event' then ''activated'' else ''deactivated'')
                          in (Redirect ''ngo_view_event''
                                (''Event '' @ status @ '' successfully!'') ''success'',
                              d\<lparr>events := (events d)(eid \<mapsto> event')\<rparr>))))))"

section \<open>Sequences of operations and the counter invariant\<close>

datatype op = Book fault user book_request | DeleteEvent "string option" user int

fun step :: "db \<Rightarrow> op \<Rightarrow> db" where
  "step d (Book f u data) = snd (book_slot f d u data)"
| "step d (DeleteEvent exc u eid) = snd (ngo_delete_event exc d u eid)"

definition run :: "db \<Rightarrow> op list \<Rightarrow> db" where
  "run d ops = foldl step d ops"




section \<open>Concurrent booking requests\<close>

text \<open>
  Several \<^verbatim>\<open>book_slot\<close> requests in flight against one database, each with its own
  storage fault. A request first runs its checks up to the duplicate lookup (lines
  627-649, reads only), and later enters its transaction (lines 651-680), its session
  already in a transaction. Between the two steps of one request any steps of other
  requests may run.
\<close>

datatype request =
  Arrived fault user book_request | Checked fault int int int | Answered response

fun request_step :: "db \<Rightarrow> request \<Rightarrow> db \<times> request" where
  "request_step d (Arrived f u data) =
     (case precheck f d u data of
        Inl r \<Rightarrow> (d, Answered r)
      | Inr (vid, sid, eid) \<Rightarrow> (d, Checked f vid sid eid))"
| "request_step d (Checked f vid sid eid) =
     (case book_transaction f True d vid sid eid of (r, d') \<Rightarrow> (d', Answered r))"
| "request_step d (Answered r) = (d, Answered r)"

text \<open>
  A schedule is the order in which the requests (by position) take their steps; a
  position outside the list is skipped.
\<close>

fun interleave :: "db \<Rightarrow> request list \<Rightarrow> nat list \<Rightarrow> db \<times> request list" where
  "interleave d rs [] = (d, rs)"
| "interleave d rs (i # sched) =
     (if i < length rs
      then (case request_step d (rs ! i) of (d', r') \<Rightarrow> interleave d' (rs[i := r']) sched)
      else interleave d rs sched)"

section \<open>Database migrations\<close>

text \<open>
  \<^verbatim>\<open>database/migrations.py\<close>. A migration is the dictionary that
  \<^verbatim>\<open>_register_migrations\<close> builds; a row of the \<^verbatim>\<open>migrations\<close> table holds the
  version, name and description of an applied migration.
\<close>

record migration =
  version :: int
  name :: string
  description :: string
  sql :: string

type_synonym migration_row = "int \<times> string \<times> string"

text \<open>
  The database as the migration system sees it: the \<^verbatim>\<open>migrations\<close> table (\<open>None\<close>
  while the table does not exist) and the SQL scripts executed and committed so far.
\<close>

record mig_db =
  migrations_table :: "migration_row list option"
  executed :: "string list"

text \<open>\<^verbatim>\<open>self.migrations\<close> as \<^verbatim>\<open>_register_migrations\<close> sets it (lines 24-70).\<close>

definition registered_migrations :: "migration list" where
  "registered_migrations =
     [
      \<lparr>version = 1, name = ''Initial Schema'',
       description = ''Create initial database schema'',
       sql = ''\<newline>                -- This migration is handled by SQLAlchemy create_all()\<newline>                -- No manual SQL needed for initial schema\<newline>                ''\<rparr>,
      \<lparr>version = 2, name = ''Add Indexes'',
       description = ''Add performance indexes to frequently queried columns'',
       sql = ''\<newline>                CREATE INDEX IF NOT EXISTS idx_users_email ON users(email);\<newline>                CREATE INDEX IF NOT EXISTS idx_users_role ON users(role);\<newline>                CREATE INDEX IF NOT EXISTS idx_users_created_at ON users(created_at);\<newline>                CREATE INDEX IF NOT EXISTS idx_events_start_date ON events(start_date);\<newline>                CREATE INDEX IF NOT EXISTS idx_events_category ON events(category);\<newline>                CREATE INDEX IF NOT EXISTS idx_bookings_status ON bookings(status);\<newline>                CREATE INDEX IF NOT EXISTS idx_messages_created_at ON messages(created_at);\<newline>                ''\<rparr>,
      \<lparr>version = 3, name = ''Add Status to Events'',
       description = ''Add status column to events table'',
       sql = ''\<newline>                ALTER TABLE events ADD COLUMN status VARCHAR(20) DEFAULT 'active';\<newline>                CREATE INDEX IF NOT EXISTS idx_events_status ON events(status);\<newline>                ''\<rparr>,
      \<lparr>version = 4, name = ''Add Verification Fields'',
       description = ''Add verification and active status fields'',
       sql = ''\<newline>                ALTER TABLE users ADD COLUMN is_verified BOOLEAN DEFAULT FALSE;\<newline>                ALTER TABLE users ADD COLUMN is_active BOOLEAN DEFAULT TRUE;\<newline>                ALTER TABLE ngos ADD COLUMN is_verified BOOLEAN DEFAULT FALSE;\<newline>                CREATE INDEX IF NOT EXISTS idx_users_verified ON users(is_verified);\<newline>                CREATE INDEX IF NOT EXISTS idx_users_active ON users(is_active);\<newline>                CREATE INDEX IF NOT EXISTS idx_ngos_verified ON ngos(is_verified);\<newline>                ''\<rparr>]"

text \<open>
  \<^verbatim>\<open>str.strip()\<close> on ASCII text: leading and trailing characters for which
  \<^verbatim>\<open>isspace()\<close> holds are removed.
\<close>

definition is_space :: "char \<Rightarrow> bool" where
  "is_space c \<longleftrightarrow>
     c \<in> {CHR 0x09, CHR 0x0A, CHR 0x0B, CHR 0x0C, CHR 0x0D,
          CHR 0x1C, CHR 0x1D, CHR 0x1E, CHR 0x1F, CHR 0x20}"

definition strip :: "string \<Rightarrow> string" where
  "strip s = rev (dropWhile is_space (rev (dropWhile is_space s)))"

text \<open>\<^verbatim>\<open>SELECT MAX(version) FROM migrations\<close>: \<open>NULL\<close> on an empty table.\<close>

fun max_version :: "migration_row list \<Rightarrow> int option" where
  "max_version [] = None"
| "max_version (r # rs) = Some (fold max (map fst rs) (fst r))"

text \<open>
  \<^verbatim>\<open>get_current_version\<close> (lines 72-105). \<open>raises\<close>: the storage layer raises at the first
  query, and the handler returns 0. Otherwise a missing table is created and the version
  is 0; an existing table gives \<^verbatim>\<open>row[0] if row[0] else 0\<close>.
\<close>

definition get_current_version :: "bool \<Rightarrow> mig_db \<Rightarrow> int \<times> mig_db" where
  "get_current_version raises m =
     (if raises then (0, m)
      else
        (case migrations_table m of
           None \<Rightarrow> (0, m\<lparr>migrations_table := Some []\<rparr>)
         | Some rows \<Rightarrow>
             (case max_version rows of
                None \<Rightarrow> (0, m)
              | Some v \<Rightarrow> (if v \<noteq> 0 then v else 0, m))))"

text \<open>
  \<^verbatim>\<open>apply_migration\<close> (lines 107-133). \<open>fails m mg\<close> says whether the storage layer raises
  while \<open>mg\<close> is applied in state \<open>m\<close> (running its SQL, inserting its row or committing);
  the insert also raises when the \<^verbatim>\<open>migrations\<close> table does not exist. On an exception
  the handler rolls back and re-raises: the result is \<open>None\<close> and the state is the one
  the call found. Otherwise the SQL has been executed (unless it is blank) and the row
  recorded.
\<close>

definition apply_migration ::
  "(mig_db \<Rightarrow> migration \<Rightarrow> bool) \<Rightarrow> mig_db \<Rightarrow> migration \<Rightarrow> mig_db option" where
  "apply_migration fails m mg =
     (if fails m mg then None
      else
        (case migrations_table m of
           None \<Rightarrow> None
         | Some rows \<Rightarrow>
             Some (m\<lparr>executed :=
                        (if strip (sql mg) \<noteq> [] then executed m @ [sql mg] else executed m),
                     migrations_table :=
                        Some (rows @ [(version mg, name mg, description mg)])\<rparr>)))"

text \<open>
  The loop of \<^verbatim>\<open>run_migrations\<close> (lines 151-156): \<^verbatim>\<open>break\<close> at the first migration
  whose application raises.
\<close>

fun apply_in_order ::
  "(mig_db \<Rightarrow> migration \<Rightarrow> bool) \<Rightarrow> mig_db \<Rightarrow> migration list \<Rightarrow> mig_db" where
  "apply_in_order fails m [] = m"
| "apply_in_order fails m (mg # rest) =
     (case apply_migration fails m mg of
        None \<Rightarrow> m
      | Some m' \<Rightarrow> apply_in_order fails m' rest)"

text \<open>
  \<^verbatim>\<open>run_migrations\<close> (lines 135-156) on \<^verbatim>\<open>self.migrations\<close>. Python's \<^verbatim>\<open>sorted\<close> is
  stable, as \<open>sort_key\<close> is.
\<close>

definition run_migrations ::
  "bool \<Rightarrow> (mig_db \<Rightarrow> migration \<Rightarrow> bool) \<Rightarrow> migration list \<Rightarrow> mig_db \<Rightarrow> mig_db" where
  "run_migrations raises fails migrations m =
     (let (current_version, m1) = get_current_version raises m;
          pending_migrations = filter (\<lambda>mg. version mg > current_version) migrations
      in if pending_migrations = [] then m1
         else apply_in_order fails m1 (sort_key version pending_migrations))"

text \<open>
  For stating what \<open>run_migrations\<close> achieves: the state in which exactly the migrations
  \<open>xs\<close> have been applied to \<open>m\<close>, in this order.
\<close>

definition row_of :: "migration \<Rightarrow> migration_row" where
  "row_of mg = (version mg, name mg, description mg)"

definition applied_state :: "mig_db \<Rightarrow> migration list \<Rightarrow> mig_db" where
  "applied_state m xs =
     m\<lparr>migrations_table := map_option (\<lambda>rows. rows @ map row_of xs) (migrations_table m),
       executed := executed m @ map sql (filter (\<lambda>mg. strip (sql mg) \<noteq> []) xs)\<rparr>"

section \<open>Example states\<close>

definition alice :: user where
  "alice = \<lparr>user_id = 70, role = ''volunteer''\<rparr>"

definition bob :: user where
  "bob = \<lparr>user_id = 80, role = ''volunteer''\<rparr>"

definition ngo_one :: user where
  "ngo_one = \<lparr>user_id = 100, role = ''ngo''\<rparr>"

definition ngo_two :: user where
  "ngo_two = \<lparr>user_id = 200, role = ''ngo''\<rparr>"

text \<open>
  Two events of two NGOs: slot 10 of event 1 has room for one volunteer, slot 20 of
  event 2 for two. No bookings yet.
\<close>

definition demo_db :: db where
  "demo_db =
     \<lparr>volunteers = [\<lparr>vol_id = 7, vol_user_id = 70\<rparr>, \<lparr>vol_id = 8, vol_user_id = 80\<rparr>],
      ngos = [\<lparr>ngo_id = 1, ngo_user_id = 100\<rparr>, \<lparr>ngo_id = 2, ngo_user_id = 200\<rparr>],
      events = [1 \<mapsto> \<lparr>ev_ngo_id = 1, is_active = True\<rparr>,
                2 \<mapsto> \<lparr>ev_ngo_id = 2, is_active = True\<rparr>],
      time_slots =
        [10 \<mapsto> \<lparr>ts_event_id = 1, max_volunteers = 1, current_volunteers = 0,
                  is_available = True\<rparr>,
         20 \<mapsto> \<lparr>ts_event_id = 2, max_volunteers = 2, current_volunteers = 0,
                  is_available = True\<rparr>],
      bookings = []\<rparr>"

definition book_req :: "int \<Rightarrow> int \<Rightarrow> book_request" where
  "book_req sid eid = \<lparr>req_slot_id = Some sid, req_event_id = Some eid\<rparr>"

text \<open>The example state with one cancelled booking of volunteer 7 on slot 10.\<close>

definition cancelled_db :: db where
  "cancelled_db =
     demo_db\<lparr>bookings := [\<lparr>volunteer_id = 7, time_slot_id = 10, event_id = 1,
                              status = ''cancelled''\<rparr>]\<rparr>"

text \<open>The example state with slot 10 closed although nobody has booked it.\<close>

definition closed_db :: db where
  "closed_db =
     demo_db\<lparr>time_slots := (time_slots demo_db)(10 \<mapsto>
                \<lparr>ts_event_id = 1, max_volunteers = 1, current_volunteers = 0,
                 is_available = False\<rparr>)\<rparr>"

text \<open>
  The example state with slot 10 taken by volunteer 7: the booking is filed under
  event 1, the event of the slot.
\<close>

definition booked_db :: db where
  "booked_db =
     demo_db\<lparr>time_slots := (time_slots demo_db)(10 \<mapsto>
                \<lparr>ts_event_id = 1, max_volunteers = 1, current_volunteers = 1,
                 is_available = False\<rparr>),
             bookings := [\<lparr>volunteer_id = 7, time_slot_id = 10, event_id = 1,
                           status = ''confirmed''\<rparr>]\<rparr>"

text \<open>The same, but the booking of slot 10 is filed under event 2.\<close>

definition misfiled_db :: db where
  "misfiled_db =
     demo_db\<lparr>time_slots := (time_slots demo_db)(10 \<mapsto>
                \<lparr>ts_event_id = 1, max_volunteers = 1, current_volunteers = 1,
                 is_available = False\<rparr>),
             bookings := [\<lparr>volunteer_id = 7, time_slot_id = 10, event_id = 2,
                           status = ''confirmed''\<rparr>]\<rparr>"

text \<open>
  A database on which migration 1 has been recorded, and a storage layer that raises
  exactly when the migration with version \<open>v\<close> is applied.
\<close>

definition version_one_db :: mig_db where
  "version_one_db =
     \<lparr>migrations_table = Some [(1, ''Initial Schema'', ''Create initial database schema'')],
      executed = []\<rparr>"

definition fails_at :: "int \<Rightarrow> mig_db \<Rightarrow> migration \<Rightarrow> bool" where
  "fails_at v m mg \<longleftrightarrow> version mg = v"

section \<open>What a booking call does\<close>

lemmas book_slot_defs =
  book_slot_def precheck_def book_transaction_def session_begin_def begin_error_def
  reserve_def raises_at_def booking_failed_def

lemmas example_defs =
  alice_def bob_def ngo_one_def ngo_two_def book_req_def demo_db_def cancelled_db_def
  closed_db_def booked_db_def misfiled_db_def existing_booking_def

text \<open>
  A call that passes its checks reaches \<^verbatim>\<open>db.session.begin()\<close> with the transaction
  begun, so the block of lines 654-673 is never run: the call answers 500.
\<close>

lemma book_transaction_begun:
  "book_transaction f True d vid sid eid = (booking_failed begin_error, d)"
  by (simp add: book_transaction_def session_begin_def)

lemma book_slot_past_checks:
  "precheck f d cu data = Inr t \<Longrightarrow> book_slot f d cu data = (booking_failed begin_error, d)"
  by (cases t) (simp add: book_slot_def book_transaction_begun)

lemma book_slot_state: "snd (book_slot f d cu data) = d"
  by (cases "precheck f d cu data")
     (auto simp add: book_slot_def book_transaction_begun split: prod.splits)

lemma precheck_passes:
  assumes "role cu = ''volunteer''"
    and "req_slot_id data = Some sid" and "sid \<noteq> 0"
    and "req_event_id data = Some eid" and "eid \<noteq> 0"
    and "raises_at f VolunteerQuery = None" and "raises_at f BookingQuery = None"
    and "find (\<lambda>v. vol_user_id v = user_id cu) (volunteers d) = Some v"
    and "existing_booking d (vol_id v) sid = None"
  shows "precheck f d cu data = Inr (vol_id v, sid, eid)"
  using assms by (simp add: precheck_def)

section \<open>Booking an open slot\<close>

text \<open>
  C3 does not hold of the code. A well-formed call (a volunteer with a profile,
  non-zero \<open>slot_id\<close> and \<open>event_id\<close>, no storage fault) on a slot whose \<open>is_available\<close>
  flag is set, by a claimant with no prior booking on it, is answered 500 "Booking
  failed: A transaction is already begun on this Session."; no booking is inserted
  and the slot's counter and flag stay as they were, whether the slot has room or not.
\<close>

theorem book_slot_open_slot_fails:
  assumes "role cu = ''volunteer''"
    and "req_slot_id data = Some sid" and "sid \<noteq> 0"
    and "req_event_id data = Some eid" and "eid \<noteq> 0"
    and "find (\<lambda>v. vol_user_id v = user_id cu) (volunteers d) = Some v"
    and "existing_booking d (vol_id v) sid = None"
    and "time_slots d sid = Some slot"
    and "is_available slot"
  shows "book_slot None d cu data =
           (JsonError ''Booking failed: A transaction is already begun on this Session.'' 500, d)"
proof -
  have "precheck None d cu data = Inr (vol_id v, sid, eid)"
    using assms(1-7) by (intro precheck_passes) (simp_all add: raises_at_def)
  then show ?thesis
    using book_slot_past_checks [of None d cu data]
    by (simp add: booking_failed_def begin_error_def)
qed

text \<open>
  At the example state: Alice's call for the open slot 10, which has room for one.
\<close>

theorem book_slot_open_slot_fails_witness:
  "role alice = ''volunteer'' \<and>
   req_slot_id (book_req 10 1) = Some 10 \<and> (10::int) \<noteq> 0 \<and>
   req_event_id (book_req 10 1) = Some 1 \<and> (1::int) \<noteq> 0 \<and>
   find (\<lambda>v. vol_user_id v = user_id alice) (volunteers demo_db) =
     Some \<lparr>vol_id = 7, vol_user_id = 70\<rparr> \<and>
   existing_booking demo_db 7 10 = None \<and>
   time_slots demo_db 10 =
     Some \<lparr>ts_event_id = 1, max_volunteers = 1, current_volunteers = 0, is_available = True\<rparr> \<and>
   book_slot None demo_db alice (book_req 10 1) =
     (JsonError ''Booking failed: A transaction is already begun on this Session.'' 500,
      demo_db)"
  using book_slot_open_slot_fails [of alice "book_req 10 1" 10 1 demo_db
      "\<lparr>vol_id = 7, vol_user_id = 70\<rparr>"
      "\<lparr>ts_event_id = 1, max_volunteers = 1, current_volunteers = 0, is_available = True\<rparr>"]
  by (simp add: alice_def book_req_def demo_db_def existing_booking_def)

section \<open>Rejections and failures\<close>

text \<open>
  C6. Whenever \<open>book_slot\<close> answers anything but "Slot booked successfully" (the early
  400/403 rejections, "You have already booked this slot", "Slot not available",
  "Slot is full", or the 500 of the exception handler at any of the storage calls), the
  stored state (slots with their counters and flags, and the bookings) is exactly the
  state the call found.
\<close>

theorem book_slot_rejected_unchanged:
  "fst (book_slot f d cu data) \<noteq> JsonMessage ''Slot booked successfully'' \<Longrightarrow>
   snd (book_slot f d cu data) = d"
  by (rule book_slot_state)

text \<open>
  At the example state: Alice's booking of the open slot 10 raises when the
  transaction is begun; the answer is the 500 of the handler and nothing has changed.
\<close>

theorem book_slot_rejected_unchanged_witness:
  "fst (book_slot None demo_db alice (book_req 10 1)) =
     JsonError ''Booking failed: A transaction is already begun on this Session.'' 500 \<and>
   fst (book_slot None demo_db alice (book_req 10 1)) \<noteq>
     JsonMessage ''Slot booked successfully'' \<and>
   snd (book_slot None demo_db alice (book_req 10 1)) = demo_db"
  using book_slot_rejected_unchanged [of None demo_db alice "book_req 10 1"]
  by (simp add: book_slot_defs example_defs)

text \<open>
  C5, as the claim states it, fails: volunteer 7 holds only a cancelled booking on slot
  10, and the call is still rejected as a duplicate.
\<close>

theorem duplicate_ignores_status_counterexample:
  "filter (\<lambda>b. volunteer_id b = 7 \<and> time_slot_id b = 10 \<and> status b \<noteq> ''cancelled'')
     (bookings cancelled_db) = [] \<and>
   book_slot None cancelled_db alice (book_req 10 1) =
     (JsonError ''You have already booked this slot'' 400, cancelled_db)"
  by (simp add: book_slot_defs example_defs)

text \<open>
  C5, amended. For a well-formed call (a volunteer with a profile, non-zero ids, no
  fault at the two lookups), the answer is "You have already booked this slot" if and
  only if some booking of that volunteer on that slot exists, whatever its status.
\<close>

theorem duplicate_iff_any_booking:
  assumes "role cu = ''volunteer''"
    and "req_slot_id data = Some sid" and "sid \<noteq> 0"
    and "req_event_id data = Some eid" and "eid \<noteq> 0"
    and "raises_at f VolunteerQuery = None" and "raises_at f BookingQuery = None"
    and "find (\<lambda>v. vol_user_id v = user_id cu) (volunteers d) = Some v"
  shows "fst (book_slot f d cu data) = JsonError ''You have already booked this slot'' 400 \<longleftrightarrow>
         (\<exists>b \<in> set (bookings d). volunteer_id b = vol_id v \<and> time_slot_id b = sid)"
proof (cases "existing_booking d (vol_id v) sid")
  case None
  then have "\<not> (\<exists>b \<in> set (bookings d). volunteer_id b = vol_id v \<and> time_slot_id b = sid)"
    by (auto simp add: existing_booking_def find_None_iff)
  moreover have "precheck f d cu data = Inr (vol_id v, sid, eid)"
    using assms None by (intro precheck_passes)
  then have "fst (book_slot f d cu data) \<noteq> JsonError ''You have already booked this slot'' 400"
    using book_slot_past_checks [of f d cu data] by (simp add: booking_failed_def)
  ultimately show ?thesis by simp
next
  case (Some b)
  then have "\<exists>b \<in> set (bookings d). volunteer_id b = vol_id v \<and> time_slot_id b = sid"
    by (auto simp add: existing_booking_def find_Some_iff)
  moreover have "fst (book_slot f d cu data) = JsonError ''You have already booked this slot'' 400"
    using assms Some by (simp add: book_slot_def precheck_def)
  ultimately show ?thesis by simp
qed

theorem duplicate_iff_any_booking_witness:
  "role alice = ''volunteer'' \<and>
   req_slot_id (book_req 10 1) = Some 10 \<and> (10::int) \<noteq> 0 \<and>
   req_event_id (book_req 10 1) = Some 1 \<and> (1::int) \<noteq> 0 \<and>
   raises_at None VolunteerQuery = None \<and> raises_at None BookingQuery = None \<and>
   find (\<lambda>v. vol_user_id v = user_id alice) (volunteers cancelled_db) =
     Some \<lparr>vol_id = 7, vol_user_id = 70\<rparr> \<and>
   (\<exists>b \<in> set (bookings cancelled_db). volunteer_id b = 7 \<and> time_slot_id b = 10) \<and>
   fst (book_slot None cancelled_db alice (book_req 10 1)) =
     JsonError ''You have already booked this slot'' 400"
  using duplicate_iff_any_booking [of alice "book_req 10 1" 10 1 None cancelled_db
      "\<lparr>vol_id = 7, vol_user_id = 70\<rparr>"]
  by (simp add: example_defs raises_at_def)

section \<open>What a booking call reads\<close>

text \<open>
  The checks read the volunteers and the bookings; the transaction block reads the
  slots. The events are read nowhere.
\<close>

lemma precheck_reads:
  "volunteers d' = volunteers d \<Longrightarrow> bookings d' = bookings d \<Longrightarrow>
   precheck f d' cu data = precheck f d cu data"
  by (simp add: precheck_def existing_booking_def cong: option.case_cong if_cong)

lemma book_slot_reads:
  assumes "volunteers d' = volunteers d" and "bookings d' = bookings d"
  shows "fst (book_slot f d' cu data) = fst (book_slot f d cu data)"
  using precheck_reads [OF assms, of f cu data]
  by (simp add: book_slot_def book_transaction_begun split: sum.splits prod.splits)

section \<open>Unknown and closed slots\<close>

text \<open>
  C8, as the claim states it, fails: slot 99 does not exist, slot 10 of the second
  state exists and is closed, and Alice's call gets one and the same response for
  both. There is no separate answer for an unknown slot.
\<close>

theorem unknown_slot_counterexample:
  "time_slots demo_db 99 = None \<and>
   map_option is_available (time_slots closed_db 10) = Some False \<and>
   fst (book_slot None demo_db alice (book_req 99 1)) =
     fst (book_slot None closed_db alice (book_req 10 1))"
  by (simp add: book_slot_defs example_defs)

text \<open>
  C8, amended. A Book call naming a slot identifier that matches no slot gets no
  answer of its own: the response is the one the same call gets when the slot exists
  with its \<open>is_available\<close> flag false, and the stored state is unchanged.
\<close>

theorem unknown_slot_same_as_closed:
  assumes "req_slot_id data = Some sid"
    and "time_slots d sid = None"
    and "\<not> is_available slot"
  shows "fst (book_slot f (d\<lparr>time_slots := (time_slots d)(sid \<mapsto> slot)\<rparr>) cu data) =
           fst (book_slot f d cu data) \<and>
         snd (book_slot f d cu data) = d"
  using book_slot_reads [of "d\<lparr>time_slots := (time_slots d)(sid \<mapsto> slot)\<rparr>" d f cu data]
    book_slot_state [of f d cu data]
  by simp

theorem unknown_slot_same_as_closed_witness:
  "req_slot_id (book_req 99 1) = Some 99 \<and>
   time_slots demo_db 99 = None \<and>
   \<not> is_available \<lparr>ts_event_id = 1, max_volunteers = 5, current_volunteers = 0,
                    is_available = False\<rparr> \<and>
   fst (book_slot None
         (demo_db\<lparr>time_slots := (time_slots demo_db)(99 \<mapsto>
            \<lparr>ts_event_id = 1, max_volunteers = 5, current_volunteers = 0,
             is_available = False\<rparr>)\<rparr>) alice (book_req 99 1)) =
     fst (book_slot None demo_db alice (book_req 99 1)) \<and>
   snd (book_slot None demo_db alice (book_req 99 1)) = demo_db"
  using unknown_slot_same_as_closed [of "book_req 99 1" 99 demo_db
      "\<lparr>ts_event_id = 1, max_volunteers = 5, current_volunteers = 0, is_available = False\<rparr>"
      None alice]
  by (simp add: book_req_def demo_db_def)

section \<open>The event of a booking\<close>

text \<open>
  C9 does not hold of the code. Slot 10 belongs to event 1 and is open with room for
  one; Alice books it with \<open>event_id = 2\<close>, the id of another existing event. The call
  is answered 500 and no booking is stored, so no booking with a foreign event comes
  into being.
\<close>

theorem book_slot_foreign_event_fails:
  "map_option ts_event_id (time_slots demo_db 10) = Some 1 \<and>
   events demo_db 2 \<noteq> None \<and>
   book_slot None demo_db alice (book_req 10 2) =
     (JsonError ''Booking failed: A transaction is already begun on this Session.'' 500,
      demo_db) \<and>
   bookings (snd (book_slot None demo_db alice (book_req 10 2))) = []"
  by (simp add: book_slot_defs example_defs)

section \<open>Inactive events\<close>

text \<open>
  C4, as the claim states it, fails: NGO 1 deactivates its event 1; Alice's call for
  slot 10 of that event afterwards is not answered "Slot not available" but with the
  response it got while the event was active.
\<close>

theorem inactive_event_counterexample:
  "map_option is_active (events (snd (ngo_toggle_event_status None demo_db ngo_one 1)) 1) =
     Some False \<and>
   map_option ts_event_id (time_slots (snd (ngo_toggle_event_status None demo_db ngo_one 1)) 10) =
     Some 1 \<and>
   fst (book_slot None (snd (ngo_toggle_event_status None demo_db ngo_one 1)) alice (book_req 10 1))
     \<noteq> JsonError ''Slot not available'' 400 \<and>
   fst (book_slot None (snd (ngo_toggle_event_status None demo_db ngo_one 1)) alice (book_req 10 1))
     = fst (book_slot None demo_db alice (book_req 10 1))"
  by (simp add: book_slot_defs example_defs ngo_toggle_event_status_def)

lemma toggle_keeps_tables:
  "volunteers (snd (ngo_toggle_event_status exc d u e)) = volunteers d \<and>
   time_slots (snd (ngo_toggle_event_status exc d u e)) = time_slots d \<and>
   bookings (snd (ngo_toggle_event_status exc d u e)) = bookings d"
  by (simp add: ngo_toggle_event_status_def Let_def split: option.splits)

text \<open>
  C4, amended. Book never reads the owning event. Toggling an event's \<open>is_active\<close>
  flag changes no slot and no booking, and every later Book call gets the response
  it would have got without the toggle.
\<close>

theorem event_status_not_consulted:
  "fst (book_slot f (snd (ngo_toggle_event_status exc d u e)) cu data) =
     fst (book_slot f d cu data) \<and>
   time_slots (snd (ngo_toggle_event_status exc d u e)) = time_slots d \<and>
   bookings (snd (ngo_toggle_event_status exc d u e)) = bookings d"
  using toggle_keeps_tables [of exc d u e]
    book_slot_reads [of "snd (ngo_toggle_event_status exc d u e)" d f cu data]
  by simp

section \<open>The counter invariant\<close>











section \<open>Running the pending migrations\<close>

lemma applied_state_Nil: "applied_state m [] = m"
  by (simp add: applied_state_def option.map_ident)

lemma applied_state_append:
  "applied_state (applied_state m xs) ys = applied_state m (xs @ ys)"
  by (simp add: applied_state_def option.map_comp comp_def)

lemma apply_migration_Some:
  "apply_migration fails m mg = Some m' \<Longrightarrow> m' = applied_state m [mg]"
  by (auto simp add: apply_migration_def applied_state_def row_of_def
      split: if_splits option.splits)

lemma apply_in_order_split:
  "\<exists>applied rest.
     xs = applied @ rest \<and>
     apply_in_order fails m xs = applied_state m applied \<and>
     (\<forall>i<length applied.
        apply_migration fails (applied_state m (take i applied)) (applied ! i) \<noteq> None) \<and>
     (rest \<noteq> [] \<longrightarrow> apply_migration fails (applied_state m applied) (hd rest) = None)"
proof (induction xs arbitrary: m)
  case Nil
  show ?case by (simp add: applied_state_Nil)
next
  case (Cons x xs)
  show ?case
  proof (cases "apply_migration fails m x")
    case None
    have "x # xs = [] @ (x # xs)" by simp
    moreover have "apply_in_order fails m (x # xs) = applied_state m []"
      using None by (simp add: applied_state_Nil)
    moreover have "apply_migration fails (applied_state m []) (hd (x # xs)) = None"
      using None by (simp add: applied_state_Nil)
    ultimately show ?thesis
      by (intro exI [of _ "[]"] exI [of _ "x # xs"]) simp
  next
    case (Some m')
    then have m': "m' = applied_state m [x]" by (rule apply_migration_Some)
    from Cons.IH [of m'] obtain applied rest where
      split: "xs = applied @ rest"
      and result: "apply_in_order fails m' xs = applied_state m' applied"
      and ok: "\<And>i. i < length applied \<Longrightarrow>
          apply_migration fails (applied_state m' (take i applied)) (applied ! i) \<noteq> None"
      and stop: "rest \<noteq> [] \<Longrightarrow>
          apply_migration fails (applied_state m' applied) (hd rest) = None"
      by blast
    have shift: "\<And>ys. applied_state m' ys = applied_state m (x # ys)"
      using applied_state_append [of m "[x]"] by (simp add: m')
    have "x # xs = (x # applied) @ rest"
      using split by simp
    moreover have "apply_in_order fails m (x # xs) = applied_state m (x # applied)"
      using Some result shift by simp
    moreover have "\<forall>i<length (x # applied).
        apply_migration fails (applied_state m (take i (x # applied))) ((x # applied) ! i) \<noteq> None"
    proof (intro allI impI)
      fix i
      assume i: "i < length (x # applied)"
      show "apply_migration fails (applied_state m (take i (x # applied))) ((x # applied) ! i)
            \<noteq> None"
      proof (cases i)
        case 0
        with Some show ?thesis by (simp add: applied_state_Nil)
      next
        case (Suc j)
        with i have "j < length applied" by simp
        from ok [OF this] Suc show ?thesis by (simp add: shift)
      qed
    qed
    moreover have "rest \<noteq> [] \<longrightarrow>
        apply_migration fails (applied_state m (x # applied)) (hd rest) = None"
      using stop by (simp add: shift)
    ultimately show ?thesis by blast
  qed
qed

lemma apply_in_order_prefix:
  assumes "\<forall>i<length applied.
      apply_migration fails (applied_state m (take i applied)) (applied ! i) \<noteq> None"
    and "rest \<noteq> [] \<longrightarrow> apply_migration fails (applied_state m applied) (hd rest) = None"
  shows "apply_in_order fails m (applied @ rest) = applied_state m applied"
  using assms
proof (induction applied arbitrary: m)
  case Nil
  then show ?case by (cases rest) (simp_all add: applied_state_Nil)
next
  case (Cons x xs)
  from Cons.prems(1) have "apply_migration fails (applied_state m (take 0 (x # xs))) ((x # xs) ! 0) \<noteq> None"
    by blast
  then obtain m' where some: "apply_migration fails m x = Some m'"
    by (auto simp add: applied_state_Nil)
  then have m': "m' = applied_state m [x]" by (rule apply_migration_Some)
  have shift: "\<And>ys. applied_state m' ys = applied_state m (x # ys)"
    using applied_state_append [of m "[x]"] by (simp add: m')
  have "\<forall>i<length xs. apply_migration fails (applied_state m' (take i xs)) (xs ! i) \<noteq> None"
  proof (intro allI impI)
    fix i
    assume "i < length xs"
    then have "Suc i < length (x # xs)" by simp
    with Cons.prems(1)
    have "apply_migration fails (applied_state m (take (Suc i) (x # xs))) ((x # xs) ! Suc i) \<noteq> None"
      by blast
    then show "apply_migration fails (applied_state m' (take i xs)) (xs ! i) \<noteq> None"
      by (simp add: shift)
  qed
  moreover have "rest \<noteq> [] \<longrightarrow> apply_migration fails (applied_state m' xs) (hd rest) = None"
    using Cons.prems(2) by (simp add: shift)
  ultimately have "apply_in_order fails m' (xs @ rest) = applied_state m' xs"
    by (rule Cons.IH)
  with some show ?case by (simp add: shift)
qed

text \<open>
  C10. Let \<open>cv\<close> be the version \<open>get_current_version\<close> returns, and let the registered
  migrations with version greater than \<open>cv\<close>, sorted by ascending version, be
  \<open>applied @ rest\<close>, where every migration of \<open>applied\<close> goes through when its turn comes
  and the first migration of \<open>rest\<close> (if there is one) raises. Then \<open>run_migrations\<close> ends
  in the state in which exactly the migrations of \<open>applied\<close> have been executed and
  recorded, in ascending version order, and nothing of \<open>rest\<close>.
\<close>

theorem run_migrations_pending_in_order:
  assumes "get_current_version q m = (cv, m1)"
    and "sort_key version (filter (\<lambda>mg. cv < version mg) migrations) = applied @ rest"
    and "\<forall>i<length applied.
      apply_migration fails (applied_state m1 (take i applied)) (applied ! i) \<noteq> None"
    and "rest \<noteq> [] \<longrightarrow> apply_migration fails (applied_state m1 applied) (hd rest) = None"
  shows "run_migrations q fails migrations m = applied_state m1 applied \<and>
         sorted (map version applied) \<and>
         set applied \<subseteq> {mg \<in> set migrations. cv < version mg}"
proof -
  let ?pending = "filter (\<lambda>mg. cv < version mg) migrations"
  have "run_migrations q fails migrations m = apply_in_order fails m1 (sort_key version ?pending)"
    using assms(1) by (cases "?pending = []") (simp_all add: run_migrations_def Let_def)
  also have "\<dots> = apply_in_order fails m1 (applied @ rest)"
    by (simp only: assms(2))
  also have "\<dots> = applied_state m1 applied"
    using assms(3,4) by (rule apply_in_order_prefix)
  finally have run: "run_migrations q fails migrations m = applied_state m1 applied" .
  have "sorted (map version (sort_key version ?pending))"
    by (rule sorted_sort_key)
  then have asc: "sorted (map version applied)"
    by (simp add: assms(2) sorted_append)
  have "set (sort_key version ?pending) = set ?pending"
    by simp
  then have "set (applied @ rest) = set ?pending"
    by (simp only: assms(2))
  then have sub: "set applied \<subseteq> {mg \<in> set migrations. cv < version mg}"
    by auto
  from run asc sub show ?thesis by simp
qed

text \<open>
  On a database at version 1 whose storage raises for migration 3: of the pending
  migrations 2, 3, 4 only migration 2 is applied and recorded; migration 4 is not
  tried after migration 3 has failed.
\<close>

theorem run_migrations_pending_in_order_witness:
  "get_current_version False version_one_db = (1, version_one_db) \<and>
   sort_key version (filter (\<lambda>mg. 1 < version mg) registered_migrations) =
     [registered_migrations ! 1] @ [registered_migrations ! 2, registered_migrations ! 3] \<and>
   apply_migration (fails_at 3) version_one_db (registered_migrations ! 1) \<noteq> None \<and>
   apply_migration (fails_at 3) (applied_state version_one_db [registered_migrations ! 1])
     (registered_migrations ! 2) = None \<and>
   run_migrations False (fails_at 3) registered_migrations version_one_db =
     applied_state version_one_db [registered_migrations ! 1] \<and>
   migrations_table (run_migrations False (fails_at 3) registered_migrations version_one_db) =
     Some [(1, ''Initial Schema'', ''Create initial database schema''),
           (2, ''Add Indexes'', ''Add performance indexes to frequently queried columns'')]"
proof -
  have cv: "get_current_version False version_one_db = (1, version_one_db)"
    by (simp add: get_current_version_def version_one_db_def)
  have pending: "sort_key version (filter (\<lambda>mg. 1 < version mg) registered_migrations) =
      [registered_migrations ! 1] @ [registered_migrations ! 2, registered_migrations ! 3]"
    by (simp add: registered_migrations_def)
  have ok: "apply_migration (fails_at 3) version_one_db (registered_migrations ! 1) \<noteq> None"
    by (simp add: apply_migration_def fails_at_def version_one_db_def registered_migrations_def)
  have stop: "apply_migration (fails_at 3) (applied_state version_one_db [registered_migrations ! 1])
      (registered_migrations ! 2) = None"
    by (simp add: apply_migration_def fails_at_def registered_migrations_def)
  have all_ok: "\<forall>i<length [registered_migrations ! 1].
      apply_migration (fails_at 3)
        (applied_state version_one_db (take i [registered_migrations ! 1]))
        ([registered_migrations ! 1] ! i) \<noteq> None"
    using ok by (simp add: applied_state_Nil)
  have run: "run_migrations False (fails_at 3) registered_migrations version_one_db =
      applied_state version_one_db [registered_migrations ! 1]"
    using run_migrations_pending_in_order [OF cv pending all_ok] stop by simp
  have "migrations_table (applied_state version_one_db [registered_migrations ! 1]) =
      Some [(1, ''Initial Schema'', ''Create initial database schema''),
            (2, ''Add Indexes'', ''Add performance indexes to frequently queried columns'')]"
    by (simp add: applied_state_def row_of_def version_one_db_def registered_migrations_def)
  with cv pending ok stop run show ?thesis by simp
qed

section \<open>Booking again after a cancellation\<close>

text \<open>
  C7 does not hold of the code. \<^verbatim>\<open>app.py\<close> has no operation that cancels a booking;
  the state \<open>cancelled_db\<close> is what the spec describes after slot 10 (capacity 1) was
  booked by volunteer 7 and that booking cancelled: the booking is cancelled, the
  counter is back at 0 and the slot is open. Bob, who has no booking on the slot,
  calls for it: the call is answered 500 and stores nothing.
\<close>

theorem rebook_after_cancel_fails:
  "bookings cancelled_db =
     [\<lparr>volunteer_id = 7, time_slot_id = 10, event_id = 1, status = ''cancelled''\<rparr>] \<and>
   time_slots cancelled_db 10 =
     Some \<lparr>ts_event_id = 1, max_volunteers = 1, current_volunteers = 0, is_available = True\<rparr> \<and>
   existing_booking cancelled_db 8 10 = None \<and>
   book_slot None cancelled_db bob (book_req 10 1) =
     (JsonError ''Booking failed: A transaction is already begun on this Session.'' 500,
      cancelled_db)"
  by (simp add: book_slot_defs example_defs)

section \<open>Concurrent requests for one slot\<close>

text \<open>A request that takes its two steps without interruption is \<open>book_slot\<close>.\<close>

lemma book_slot_two_steps:
  "interleave d [Arrived f u data] [0, 0] =
     (snd (book_slot f d u data), [Answered (fst (book_slot f d u data))])"
  by (simp add: book_slot_def split: sum.splits prod.splits)

text \<open>No step of any request writes, so no schedule changes the stored state.\<close>

lemma request_step_state: "fst (request_step d r) = d"
  by (cases r) (simp_all add: book_transaction_begun split: sum.splits prod.splits)

lemma interleave_state: "fst (interleave d rs sched) = d"
proof (induction sched arbitrary: rs)
  case Nil
  show ?case by simp
next
  case (Cons i sched)
  show ?case
  proof (cases "i < length rs")
    case True
    obtain d' r' where step: "request_step d (rs ! i) = (d', r')"
      by (cases "request_step d (rs ! i)") auto
    with request_step_state [of d "rs ! i"] have "d' = d" by simp
    with True step Cons.IH [of "rs[i := r']"] show ?thesis by simp
  next
    case False
    with Cons.IH [of rs] show ?thesis by simp
  qed
qed

text \<open>
  C2 does not hold of the code. Slot 10 has capacity 1 and is open; Alice and Bob
  call for it concurrently: both pass their checks, then Bob's transaction step runs,
  then Alice's. Neither call succeeds: both are answered 500, and the slot holds no
  booking, where the claim has exactly one call succeed.
\<close>

theorem concurrent_calls_all_fail:
  "time_slots demo_db 10 =
     Some \<lparr>ts_event_id = 1, max_volunteers = 1, current_volunteers = 0, is_available = True\<rparr> \<and>
   interleave demo_db [Arrived None alice (book_req 10 1), Arrived None bob (book_req 10 1)]
       [0, 1, 1, 0] =
     (demo_db,
      [Answered (JsonError ''Booking failed: A transaction is already begun on this Session.'' 500),
       Answered (JsonError ''Booking failed: A transaction is already begun on this Session.'' 500)])"
  by (simp add: book_slot_defs example_defs)

end
